theory Spec2Isabelle
  imports Main
begin

section \<open>Errors\<close>

text \<open>
  Go error values that the two packages create, test or pass on.
  \<^item> \<open>StatusError nf m\<close>: an error returned by the Kubernetes client; \<open>nf\<close> is what
    \<open>errors.IsNotFound\<close> answers for it, \<open>m\<close> its message.
  \<^item> \<open>ErrHostDoesNotExist n\<close>: \<open>mcnerror.ErrHostDoesNotExist{Name: n}\<close>.
  \<^item> \<open>ErrNotExist\<close>: \<open>os.ErrNotExist\<close>.
  \<^item> \<open>LibError m\<close>: any other error of a library (file system, SSH, JSON, migration,
    template engine, wrapped provisioner), with its message.
  \<^item> \<open>Errorf m\<close>: the value built by \<open>fmt.Errorf\<close>, with the formatted message.
\<close>

datatype error =
    StatusError bool string
  | ErrHostDoesNotExist string
  | ErrNotExist
  | LibError string
  | Errorf string

fun IsNotFound :: "error \<Rightarrow> bool" where
  "IsNotFound (StatusError nf m) = nf"
| "IsNotFound e = False"

text \<open>The verb \<open>%q\<close> on a string of printable ASCII characters: the string between
  quotation marks, with a backslash before each quotation mark and each backslash.\<close>

definition go_quote :: "string \<Rightarrow> string" where
  "go_quote s =
     [CHR 0x22]
     @ concat (map (\<lambda>c. if c = CHR 0x22 \<or> c = CHR 0x5C then [CHR 0x5C, c] else [c]) s)
     @ [CHR 0x22]"

text \<open>The text that \<open>%v\<close> and \<open>%s\<close> print for an error (its \<open>Error()\<close> string).\<close>

fun error_msg :: "error \<Rightarrow> string" where
  "error_msg (StatusError nf m) = m"
| "error_msg (ErrHostDoesNotExist n) = ''Host does not exist: '' @ go_quote n"
| "error_msg ErrNotExist = ''file does not exist''"
| "error_msg (LibError m) = m"
| "error_msg (Errorf m) = m"

section \<open>Provisioner wrapper\<close>

subsection \<open>Standard base64 encoding\<close>

definition encodeStd :: "string" where
  "encodeStd = ''ABCDEFGHIJKLMNOPQRSTUVWXYZabcdefghijklmnopqrstuvwxyz0123456789+/''"

definition b64 :: "nat \<Rightarrow> char" where
  "b64 i = encodeStd ! (i mod 64)"

text \<open>\<open>base64.StdEncoding.EncodeToString\<close> on the byte values: three bytes give four
  characters, the last group is padded with \<open>=\<close>.\<close>

fun encode_bytes :: "nat list \<Rightarrow> string" where
  "encode_bytes [] = []"
| "encode_bytes [a] = [b64 (a div 4), b64 ((a mod 4) * 16), CHR ''='', CHR ''='']"
| "encode_bytes [a, b] =
     [b64 (a div 4), b64 ((a mod 4) * 16 + b div 16), b64 ((b mod 16) * 4), CHR ''='']"
| "encode_bytes (a # b # c # r) =
     [b64 (a div 4), b64 ((a mod 4) * 16 + b div 16),
      b64 ((b mod 16) * 4 + c div 64), b64 (c mod 64)] @ encode_bytes r"

definition EncodeToString :: "string \<Rightarrow> string" where
  "EncodeToString d = encode_bytes (map of_char d)"

subsection \<open>Constants and the command template\<close>

definition nodeKubeconfigPath :: string where
  "nodeKubeconfigPath = ''/etc/kubeconfig''"

definition kubeletUnitPath :: string where
  "kubeletUnitPath = ''/etc/systemd/system/kubelet.service''"

record scp_ctx =
  Path :: string
  Data64 :: string
  Chmod :: string

text \<open>The string literal that \<open>scp\<close> hands to \<open>template.New\<close>; the quotation marks
  around the payload are written \<open>CHR 0x22\<close>.\<close>

definition cmd_text :: string where
  "cmd_text =
     ''touch {{.Path}} && chmod {{.Chmod}} {{.Path}} && echo '' @ [CHR 0x22] @ ''{{.Data64}}''
     @ [CHR 0x22] @ '' | base64 -d >> {{.Path}}''"

text \<open>What a template whose body is the given text prints for a context: each of the three
  field actions is replaced by the field, everything else is copied.\<close>

function render :: "string \<Rightarrow> scp_ctx \<Rightarrow> string" where
  "render t c =
     (if t = [] then []
      else if take 9 t = ''{{.Path}}'' then Path c @ render (drop 9 t) c
      else if take 10 t = ''{{.Chmod}}'' then Chmod c @ render (drop 10 t) c
      else if take 11 t = ''{{.Data64}}'' then Data64 c @ render (drop 11 t) c
      else hd t # render (tl t) c)"
  by pat_completeness auto
termination
  by (relation "measure (\<lambda>(t, c). length t)") (auto simp: neq_Nil_conv)

declare render.simps [simp del]

text \<open>
  A \<open>text/template\<close> value: its name and, once \<open>Parse\<close> has run, its body.
  \<open>template.New\<close> only names the template; \<open>Execute\<close> on a template without a body
  returns an error and writes nothing.
\<close>

record template =
  tname :: string
  tbody :: "string option"

definition template_New :: "string \<Rightarrow> template" where
  "template_New n = \<lparr>tname = n, tbody = None\<rparr>"

definition template_Parse :: "template \<Rightarrow> string \<Rightarrow> template" where
  "template_Parse t b = t\<lparr>tbody := Some b\<rparr>"

definition template_Execute :: "template \<Rightarrow> scp_ctx \<Rightarrow> error + string" where
  "template_Execute t c =
     (case tbody t of
        None \<Rightarrow> Inl (LibError (''template: '' @ tname t @ '': '' @ go_quote (tname t)
                               @ '' is an incomplete or empty template''))
      | Some b \<Rightarrow> Inr (render b c))"

subsection \<open>The wrapped provisioner and the node\<close>

text \<open>
  The wrapped \<open>provision.Provisioner\<close> is the environment: the outcome of its
  \<open>Provision\<close>, and what \<open>SSHCommand\<close> answers (output and error) for each command.
  \<open>readFile\<close> is \<open>ioutil.ReadFile\<close> on the local machine. The calls made are recorded
  in order.
\<close>

record provisioner =
  inner_Provision :: "error option"
  inner_SSHCommand :: "string \<Rightarrow> string \<times> error option"

record KubeletProvisionerWrapper =
  Provisioner :: provisioner
  KubeconfigPath :: string

datatype event = CallProvision | CallReadFile string | CallSSH string

text \<open>\<open>scp\<close>, with the constructor of the template as a parameter \<open>mk\<close>: the source
  uses \<open>template.New\<close> on the command text.\<close>

definition scp_with ::
  "(string \<Rightarrow> template) \<Rightarrow> KubeletProvisionerWrapper \<Rightarrow> event list \<Rightarrow> string \<Rightarrow> string \<Rightarrow> string
     \<Rightarrow> error option \<times> event list" where
  "scp_with mk p log data path chmod =
     (let data64 = EncodeToString data;
          ctx = \<lparr>Path = nodeKubeconfigPath, Data64 = data64, Chmod = chmod\<rparr>;
          cmdTmpl = mk cmd_text
      in case template_Execute cmdTmpl ctx of
           Inl err \<Rightarrow> (Some err, log)
         | Inr cmd \<Rightarrow>
             (case inner_SSHCommand (Provisioner p) cmd of
                (out, Some err) \<Rightarrow>
                  (Some (Errorf (''Failed to run SSH command (error: '' @ error_msg err
                                 @ ''): '' @ out)), log @ [CallSSH cmd])
              | (out, None) \<Rightarrow> (None, log @ [CallSSH cmd])))"

definition scp ::
  "KubeletProvisionerWrapper \<Rightarrow> event list \<Rightarrow> string \<Rightarrow> string \<Rightarrow> string
     \<Rightarrow> error option \<times> event list" where
  "scp = scp_with template_New"

subsection \<open>Provision\<close>

text \<open>The constant \<open>kubeletUnitFile\<close>, line by line; every line ends with a newline.
  Quotation marks and backslashes are written by their codes.\<close>

definition kubeletUnitFile :: string where
  "kubeletUnitFile = concat (map (\<lambda>l. l @ [CHR 0x0A])
     [''[Unit]'',
      ''Description=Kubernetes Kubelet'',
      [],
      ''[Service]'',
      ''Restart=always'',
      ''RestartSec=10'',
      ''Environment='' @ [CHR 0x22]
        @ ''PATH=/usr/local/sbin:/usr/local/bin:/usr/sbin:/usr/bin:/sbin:/bin:/opt/bin''
        @ [CHR 0x22],
      ''ExecStartPre=/usr/bin/mkdir -p /var/lib/kubelet /var/run/kubernetes'',
      ''ExecStartPre=/usr/bin/curl -L -o /var/lib/kubelet/kubelet ''
        @ ''https://storage.googleapis.com/kubernetes-release/release/v1.5.3/bin/linux/amd64/kubelet'',
      ''ExecStartPre=/usr/bin/chmod +x /var/lib/kubelet/kubelet'',
      ''ExecStartPre=/usr/bin/mkdir -p /opt/bin'',
      ''ExecStartPre=/usr/bin/curl -L -o /opt/bin/socat ''
        @ ''https://s3-eu-west-1.amazonaws.com/kubermatic/coreos/socat'',
      ''ExecStartPre=/usr/bin/chmod +x /opt/bin/socat'',
      ''ExecStart=/var/lib/kubelet/kubelet '' @ [CHR 0x5C],
      ''  --address=0.0.0.0 '' @ [CHR 0x5C],
      ''  --anonymous-auth=false '' @ [CHR 0x5C],
      ''  --kubeconfig=/etc/kubeconfig '' @ [CHR 0x5C],
      ''  --require-kubeconfig '' @ [CHR 0x5C],
      ''  --cluster-dns=10.10.10.10 '' @ [CHR 0x5C],
      ''  --cluster-domain=cluster.local '' @ [CHR 0x5C],
      ''  --allow-privileged=true '' @ [CHR 0x5C],
      ''  --client-ca-file=/etc/ssl/etcd/root-ca.crt '' @ [CHR 0x5C],
      ''  --hostname-override=207.154.215.45 '' @ [CHR 0x5C],
      ''  --v=2 '' @ [CHR 0x5C],
      ''  --logtostderr=true '' @ [CHR 0x5C],
      ''  --network-plugin=cni'',
      ''[Install]'',
      ''WantedBy=multi-user.target''])"

text \<open>
  \<open>Provision\<close>: the wrapped provisioner, then the local kubeconfig is read, then the two
  remote copies. \<open>readFile\<close> is \<open>ioutil.ReadFile\<close>. The swarm, auth and engine options
  only travel to the wrapped provisioner, whose outcome is \<open>inner_Provision\<close>.
\<close>

definition Provision_with ::
  "(string \<Rightarrow> template) \<Rightarrow> (string \<Rightarrow> error + string) \<Rightarrow> KubeletProvisionerWrapper
     \<Rightarrow> error option \<times> event list" where
  "Provision_with mk readFile p =
     (case inner_Provision (Provisioner p) of
        Some err \<Rightarrow> (Some err, [CallProvision])
      | None \<Rightarrow>
          (case readFile (KubeconfigPath p) of
             Inl err \<Rightarrow> (Some err, [CallProvision, CallReadFile (KubeconfigPath p)])
           | Inr data \<Rightarrow>
               (case scp_with mk p [CallProvision, CallReadFile (KubeconfigPath p)]
                       data nodeKubeconfigPath ''0600'' of
                  (Some err, log) \<Rightarrow> (Some err, log)
                | (None, log) \<Rightarrow>
                    (case scp_with mk p log kubeletUnitFile kubeletUnitPath ''0600'' of
                       (Some err, log') \<Rightarrow> (Some err, log')
                     | (None, log') \<Rightarrow> (None, log')))))"

definition Provision ::
  "(string \<Rightarrow> error + string) \<Rightarrow> KubeletProvisionerWrapper \<Rightarrow> error option \<times> event list" where
  "Provision = Provision_with template_New"

text \<open>The template as \<open>template.New(name).Parse(text)\<close> builds it: the body is the
  given text.\<close>

definition template_parsed :: "string \<Rightarrow> template" where
  "template_parsed t = template_Parse (template_New ''cmd'') t"

section \<open>Node store\<close>

subsection \<open>Host records\<close>

text \<open>
  \<open>host.Host\<close> of the machine library, with the fields the store touches. The driver is
  an interface value: nil, the \<open>none\<close> driver with its machine name and URL, or any other
  driver given by its serialised configuration. \<open>HostOptions\<close> is a pointer, so it may be
  nil.
\<close>

datatype driver = NilDriver | NoneDriver string string | RawConfig string

record options =
  opt_Driver :: string
  Memory :: int
  Disk :: int

record host =
  ConfigVersion :: int
  Driver :: driver
  DriverName :: string
  HostOptions :: "options option"
  Name :: string

text \<open>The composite literal \<open>&host.Host{Name: name}\<close>: every other field has its zero
  value.\<close>

definition host_named :: "string \<Rightarrow> host" where
  "host_named n =
     \<lparr>ConfigVersion = 0, Driver = NilDriver, DriverName = [], HostOptions = None, Name = n\<rparr>"

text \<open>
  The two routines of other libraries that the store calls on a record:
  \<open>json.MarshalIndent\<close> and \<open>host.MigrateHost\<close> (which decodes the stored bytes and
  reports whether it had to migrate them). The store is defined for any such pair.
\<close>

record codec =
  MarshalIndent :: "host \<Rightarrow> error + string"
  MigrateHost :: "host \<Rightarrow> string \<Rightarrow> error + host \<times> bool"

subsection \<open>The Kubernetes client\<close>

definition KubeMachineAnnotationKey :: string where
  "KubeMachineAnnotationKey = ''node.alpha.kubernetes.io/kube-machine''"

definition KubeMachineLabel :: string where
  "KubeMachineLabel = ''kube-machine''"

text \<open>A Node object: its name, annotations and labels (a nil map has no keys).\<close>

record node =
  node_Name :: string
  Annotations :: "string \<rightharpoonup> string"
  Labels :: "string \<rightharpoonup> string"

text \<open>
  The API server behind \<open>Client.CoreV1().Nodes()\<close>: the Node objects in the order
  \<open>List\<close> returns them, and for each call the error the server or the transport makes it
  fail with, if any. A call that is not made to fail behaves as the API does: \<open>Get\<close> and
  \<open>Update\<close> of a missing node report not-found, \<open>Create\<close> of an existing one reports a
  conflict.
\<close>

record cluster =
  items :: "node list"
  fail_Get :: "string \<Rightarrow> error option"
  fail_Create :: "string \<Rightarrow> error option"
  fail_Update :: "string \<Rightarrow> error option"
  fail_List :: "error option"

definition not_found :: "string \<Rightarrow> error" where
  "not_found n = StatusError True (''nodes '' @ go_quote n @ '' not found'')"

definition already_exists :: "string \<Rightarrow> error" where
  "already_exists n =
     StatusError False (''nodes '' @ go_quote n @ '' already exists'')"

definition Nodes_Get :: "cluster \<Rightarrow> string \<Rightarrow> error + node" where
  "Nodes_Get c n =
     (case fail_Get c n of
        Some e \<Rightarrow> Inl e
      | None \<Rightarrow>
          (case find (\<lambda>x. node_Name x = n) (items c) of
             None \<Rightarrow> Inl (not_found n)
           | Some x \<Rightarrow> Inr x))"

definition Nodes_Create :: "cluster \<Rightarrow> node \<Rightarrow> error option \<times> cluster" where
  "Nodes_Create c x =
     (case fail_Create c (node_Name x) of
        Some e \<Rightarrow> (Some e, c)
      | None \<Rightarrow>
          (case find (\<lambda>y. node_Name y = node_Name x) (items c) of
             Some y \<Rightarrow> (Some (already_exists (node_Name x)), c)
           | None \<Rightarrow> (None, c\<lparr>items := items c @ [x]\<rparr>)))"

definition Nodes_Update :: "cluster \<Rightarrow> node \<Rightarrow> error option \<times> cluster" where
  "Nodes_Update c x =
     (case fail_Update c (node_Name x) of
        Some e \<Rightarrow> (Some e, c)
      | None \<Rightarrow>
          (case find (\<lambda>y. node_Name y = node_Name x) (items c) of
             None \<Rightarrow> (Some (not_found (node_Name x)), c)
           | Some y \<Rightarrow>
               (None, c\<lparr>items := map (\<lambda>y. if node_Name y = node_Name x then x else y)
                                        (items c)\<rparr>)))"

definition Nodes_List :: "cluster \<Rightarrow> error + node list" where
  "Nodes_List c = (case fail_List c of Some e \<Rightarrow> Inl e | None \<Rightarrow> Inr (items c))"

subsection \<open>The Kubernetes-backed store\<close>

definition kube_Save :: "codec \<Rightarrow> cluster \<Rightarrow> host \<Rightarrow> error option \<times> cluster" where
  "kube_Save k c h =
     (case MarshalIndent k h of
        Inl err \<Rightarrow> (Some err, c)
      | Inr data \<Rightarrow>
          (case Nodes_Get c (Name h) of
             Inl err \<Rightarrow>
               (if IsNotFound err
                then Nodes_Create c
                       \<lparr>node_Name = Name h,
                        Annotations = [KubeMachineAnnotationKey \<mapsto> data],
                        Labels = [KubeMachineLabel \<mapsto> ''true'']\<rparr>
                else (Some err, c))
           | Inr node \<Rightarrow>
               Nodes_Update c
                 (node\<lparr>Annotations := (Annotations node)(KubeMachineAnnotationKey \<mapsto> data),
                       Labels := (Labels node)(KubeMachineLabel \<mapsto> ''true'')\<rparr>)))"

text \<open>The loop of \<open>List\<close>: \<open>hostNames\<close> grows by the name of each node that carries the
  annotation key.\<close>

fun kube_List_loop :: "string list \<Rightarrow> node list \<Rightarrow> string list" where
  "kube_List_loop hostNames [] = hostNames"
| "kube_List_loop hostNames (node # rest) =
     (if Annotations node KubeMachineAnnotationKey \<noteq> None
      then kube_List_loop (hostNames @ [node_Name node]) rest
      else kube_List_loop hostNames rest)"

definition kube_List :: "cluster \<Rightarrow> error + string list" where
  "kube_List c =
     (case Nodes_List c of
        Inl err \<Rightarrow> Inl err
      | Inr nodes \<Rightarrow> Inr (kube_List_loop [] nodes))"

definition kube_Exists :: "cluster \<Rightarrow> string \<Rightarrow> bool \<times> error option" where
  "kube_Exists c name =
     (case Nodes_Get c name of
        Inl err \<Rightarrow> (if IsNotFound err then (False, None) else (False, Some err))
      | Inr node \<Rightarrow> (True, None))"

definition kube_loadConfig ::
  "codec \<Rightarrow> cluster \<Rightarrow> node \<Rightarrow> host \<Rightarrow> (error + host) \<times> cluster" where
  "kube_loadConfig k c node h =
     (case Annotations node KubeMachineAnnotationKey of
        None \<Rightarrow> (Inl ErrNotExist, c)
      | Some data \<Rightarrow>
          (let name = Name h in
           case MigrateHost k h data of
             Inl err \<Rightarrow> (Inl (Errorf (''Error getting migrated host: '' @ error_msg err)), c)
           | Inr (migratedHost, migrationPerformed) \<Rightarrow>
               (let h' = migratedHost\<lparr>Name := name\<rparr> in
                if migrationPerformed
                then (case kube_Save k c h' of
                        (Some err, c') \<Rightarrow>
                          (Inl (Errorf (''Error saving config after migration was performed: ''
                                        @ error_msg err)), c')
                      | (None, c') \<Rightarrow> (Inr h', c'))
                else (Inr h', c))))"

definition kube_Load :: "codec \<Rightarrow> cluster \<Rightarrow> string \<Rightarrow> (error + host) \<times> cluster" where
  "kube_Load k c name =
     (case Nodes_Get c name of
        Inl err \<Rightarrow>
          (if IsNotFound err then (Inl (ErrHostDoesNotExist name), c) else (Inl err, c))
      | Inr node \<Rightarrow> kube_loadConfig k c node (host_named name))"

subsection \<open>Paths and the local file system\<close>

text \<open>
  \<open>filepath.Join\<close> of two elements and \<open>filepath.Dir\<close>, on paths that are already clean
  (no \<open>.\<close> or \<open>..\<close> elements, no doubled or trailing separators), so that the final
  \<open>Clean\<close> of both changes nothing. \<open>Join\<close> skips an empty element; \<open>Dir\<close> of a path
  without separator is \<open>.\<close>, of a path directly under the root it is the root.
\<close>

definition Join :: "string \<Rightarrow> string \<Rightarrow> string" where
  "Join a b = (if a = [] then b else if b = [] then a else a @ ''/'' @ b)"

definition Dir :: "string \<Rightarrow> string" where
  "Dir p =
     (if CHR ''/'' \<notin> set p then ''.''
      else (let d = rev (tl (dropWhile (\<lambda>c. c \<noteq> CHR ''/'') (rev p)))
            in if d = [] then ''/'' else d))"

text \<open>
  The disk: the regular files with their content, the directories, the suffix that the next
  \<open>ioutil.TempFile\<close> appends to its prefix, and for each operation the error that the
  system makes it fail with, if any (a failing operation changes nothing).
\<close>

datatype fsop =
    OpStat string
  | OpWriteFile string
  | OpTempFile string
  | OpClose string
  | OpRemove string
  | OpRename string string
  | OpMkdirAll string
  | OpReadFile string

record fs =
  files :: "string \<rightharpoonup> string"
  dirs :: "string set"
  suffix :: string
  fail :: "fsop \<Rightarrow> error option"

definition os_IsNotExist :: "error option \<Rightarrow> bool" where
  "os_IsNotExist err = (err = Some ErrNotExist)"

definition Stat :: "fs \<Rightarrow> string \<Rightarrow> error option" where
  "Stat d p =
     (case fail d (OpStat p) of
        Some e \<Rightarrow> Some e
      | None \<Rightarrow> (if files d p \<noteq> None \<or> p \<in> dirs d then None else Some ErrNotExist))"

definition WriteFile :: "fs \<Rightarrow> string \<Rightarrow> string \<Rightarrow> error option \<times> fs" where
  "WriteFile d p data =
     (case fail d (OpWriteFile p) of
        Some e \<Rightarrow> (Some e, d)
      | None \<Rightarrow> (None, d\<lparr>files := (files d)(p \<mapsto> data)\<rparr>))"

text \<open>\<open>TempFile\<close> creates a new empty file whose name is the prefix followed by the
  suffix; it never opens a file that exists.\<close>

definition TempFile :: "fs \<Rightarrow> string \<Rightarrow> string \<Rightarrow> error + string \<times> fs" where
  "TempFile d dir prefix =
     (case fail d (OpTempFile dir) of
        Some e \<Rightarrow> Inl e
      | None \<Rightarrow>
          (let name = Join dir (prefix @ suffix d) in
           if files d name \<noteq> None \<or> name \<in> dirs d
           then Inl (LibError ''file exists'')
           else Inr (name, d\<lparr>files := (files d)(name \<mapsto> [])\<rparr>)))"

definition Close :: "fs \<Rightarrow> string \<Rightarrow> error option" where
  "Close d p = fail d (OpClose p)"

definition Remove :: "fs \<Rightarrow> string \<Rightarrow> error option \<times> fs" where
  "Remove d p =
     (case fail d (OpRemove p) of
        Some e \<Rightarrow> (Some e, d)
      | None \<Rightarrow>
          (if files d p = None then (Some ErrNotExist, d)
           else (None, d\<lparr>files := (files d)(p := None)\<rparr>)))"

definition Rename :: "fs \<Rightarrow> string \<Rightarrow> string \<Rightarrow> error option \<times> fs" where
  "Rename d old new =
     (case fail d (OpRename old new) of
        Some e \<Rightarrow> (Some e, d)
      | None \<Rightarrow>
          (case files d old of
             None \<Rightarrow> (Some ErrNotExist, d)
           | Some data \<Rightarrow> (None, d\<lparr>files := ((files d)(old := None))(new \<mapsto> data)\<rparr>)))"

definition MkdirAll :: "fs \<Rightarrow> string \<Rightarrow> error option \<times> fs" where
  "MkdirAll d p =
     (case fail d (OpMkdirAll p) of
        Some e \<Rightarrow> (Some e, d)
      | None \<Rightarrow>
          (if files d p \<noteq> None then (Some (LibError ''not a directory''), d)
           else (None, d\<lparr>dirs := insert p (dirs d)\<rparr>)))"

definition ReadFile :: "fs \<Rightarrow> string \<Rightarrow> error + string" where
  "ReadFile d p =
     (case fail d (OpReadFile p) of
        Some e \<Rightarrow> Inl e
      | None \<Rightarrow> (case files d p of None \<Rightarrow> Inl ErrNotExist | Some data \<Rightarrow> Inr data))"

subsection \<open>The file-backed store\<close>

record NodeStore =
  NodeStore_Path :: string
  CaCertPath :: string
  CaPrivateKeyPath :: string

definition GetMachinesDir :: "NodeStore \<Rightarrow> string" where
  "GetMachinesDir s = Join (NodeStore_Path s) ''machines''"

text \<open>The deferred \<open>os.Remove(tmpfi.Name())\<close>: it runs when \<open>saveToFile\<close> returns, and
  its error is dropped.\<close>

definition deferred_Remove :: "fs \<Rightarrow> string \<Rightarrow> fs" where
  "deferred_Remove d tmp = snd (Remove d tmp)"

definition saveToFile :: "fs \<Rightarrow> string \<Rightarrow> string \<Rightarrow> error option \<times> fs" where
  "saveToFile d data file =
     (if os_IsNotExist (Stat d file) then WriteFile d file data
      else
        (case TempFile d (Dir file) ''config.json.tmp'' of
           Inl err \<Rightarrow> (Some err, d)
         | Inr (tmp, d1) \<Rightarrow>
             (case WriteFile d1 tmp data of
                (Some err, d2) \<Rightarrow> (Some err, deferred_Remove d2 tmp)
              | (None, d2) \<Rightarrow>
                  (case Close d2 tmp of
                     Some err \<Rightarrow> (Some err, deferred_Remove d2 tmp)
                   | None \<Rightarrow>
                       (case Remove d2 file of
                          (Some err, d3) \<Rightarrow> (Some err, deferred_Remove d3 tmp)
                        | (None, d3) \<Rightarrow>
                            (case Rename d3 tmp file of
                               (Some err, d4) \<Rightarrow> (Some err, deferred_Remove d4 tmp)
                             | (None, d4) \<Rightarrow> (None, deferred_Remove d4 tmp)))))))"

definition file_Save :: "codec \<Rightarrow> NodeStore \<Rightarrow> fs \<Rightarrow> host \<Rightarrow> error option \<times> fs" where
  "file_Save k s d h =
     (case MarshalIndent k h of
        Inl err \<Rightarrow> (Some err, d)
      | Inr data \<Rightarrow>
          (let hostPath = Join (GetMachinesDir s) (Name h) in
           case MkdirAll d hostPath of
             (Some err, d1) \<Rightarrow> (Some err, d1)
           | (None, d1) \<Rightarrow> saveToFile d1 data (Join hostPath ''config.json'')))"

fun file_List_loop :: "string list \<Rightarrow> node list \<Rightarrow> string list" where
  "file_List_loop hostNames [] = hostNames"
| "file_List_loop hostNames (node # rest) = file_List_loop (hostNames @ [node_Name node]) rest"

definition file_List :: "cluster \<Rightarrow> error + string list" where
  "file_List c =
     (case Nodes_List c of
        Inl err \<Rightarrow> Inl err
      | Inr nodes \<Rightarrow> Inr (file_List_loop [] nodes))"

definition file_Exists :: "cluster \<Rightarrow> string \<Rightarrow> bool \<times> error option" where
  "file_Exists c name =
     (case Nodes_Get c name of
        Inl err \<Rightarrow> (if IsNotFound err then (False, None) else (False, Some err))
      | Inr node \<Rightarrow> (True, None))"

definition file_loadConfig ::
  "codec \<Rightarrow> NodeStore \<Rightarrow> fs \<Rightarrow> host \<Rightarrow> (error + host) \<times> fs" where
  "file_loadConfig k s d h =
     (case ReadFile d (Join (Join (GetMachinesDir s) (Name h)) ''config.json'') of
        Inl err \<Rightarrow> (Inl err, d)
      | Inr data \<Rightarrow>
          (let name = Name h in
           case MigrateHost k h data of
             Inl err \<Rightarrow> (Inl (Errorf (''Error getting migrated host: '' @ error_msg err)), d)
           | Inr (migratedHost, migrationPerformed) \<Rightarrow>
               (let h' = migratedHost\<lparr>Name := name\<rparr> in
                if migrationPerformed
                then (case saveToFile d data
                             (Join (Join (GetMachinesDir s) (Name h')) ''config.json.bak'') of
                        (Some err, d1) \<Rightarrow>
                          (Inl (Errorf (''Error attempting to save backup after migration: ''
                                        @ error_msg err)), d1)
                      | (None, d1) \<Rightarrow>
                          (case file_Save k s d1 h' of
                             (Some err, d2) \<Rightarrow>
                               (Inl (Errorf
                                  (''Error saving config after migration was performed: ''
                                   @ error_msg err)), d2)
                           | (None, d2) \<Rightarrow> (Inr h', d2)))
                else (Inr h', d))))"

definition file_Load :: "cluster \<Rightarrow> string \<Rightarrow> error + host" where
  "file_Load c name =
     (case Nodes_Get c name of
        Inl err \<Rightarrow> Inl err
      | Inr node \<Rightarrow>
          Inr \<lparr>ConfigVersion = 3,
               Driver = NoneDriver name ''https://1.2.3.4:1234'',
               DriverName = ''none'',
               HostOptions = Some \<lparr>opt_Driver = ''none'', Memory = 42, Disk = 1234\<rparr>,
               Name = name\<rparr>)"

section \<open>Notions used in the statements\<close>

text \<open>The error of \<open>Execute\<close> on the template that \<open>scp\<close> builds, and the command that
  the template text expands to for a payload and the mode \<open>0600\<close>.\<close>

definition unparsed_error :: error where
  "unparsed_error = LibError (''template: '' @ cmd_text @ '': '' @ go_quote cmd_text
                               @ '' is an incomplete or empty template'')"

definition kubeconfig_cmd :: "string \<Rightarrow> string" where
  "kubeconfig_cmd data = ''touch /etc/kubeconfig && chmod 0600 /etc/kubeconfig && echo ''
     @ [CHR 0x22] @ EncodeToString data @ [CHR 0x22] @ '' | base64 -d >> /etc/kubeconfig''"

text \<open>The name that \<open>TempFile\<close> picks in \<open>saveToFile\<close> for a destination.\<close>

definition tmp_name :: "fs \<Rightarrow> string \<Rightarrow> string" where
  "tmp_name d file = Join (Dir file) (''config.json.tmp'' @ suffix d)"

text \<open>The Node object that \<open>Save\<close> sends for a record named \<open>n\<close> with bytes
  \<open>data\<close>: a new object when the lookup found none, the object found with the annotation
  and the label set otherwise.\<close>

definition marked :: "node option \<Rightarrow> string \<Rightarrow> string \<Rightarrow> node" where
  "marked old n data =
     (case old of
        None \<Rightarrow> \<lparr>node_Name = n, Annotations = [KubeMachineAnnotationKey \<mapsto> data],
                 Labels = [KubeMachineLabel \<mapsto> ''true'']\<rparr>
      | Some x \<Rightarrow> x\<lparr>Annotations := (Annotations x)(KubeMachineAnnotationKey \<mapsto> data),
                     Labels := (Labels x)(KubeMachineLabel \<mapsto> ''true'')\<rparr>)"

text \<open>The record that \<open>Load\<close> of the file-backed store builds for a name.\<close>

definition stub_host :: "string \<Rightarrow> host" where
  "stub_host name =
     \<lparr>ConfigVersion = 3, Driver = NoneDriver name ''https://1.2.3.4:1234'',
      DriverName = ''none'',
      HostOptions = Some \<lparr>opt_Driver = ''none'', Memory = 42, Disk = 1234\<rparr>,
      Name = name\<rparr>"

subsection \<open>The states of the disk during a save\<close>

text \<open>
  The states of the disk between the start and the end of a write: \<open>ioutil.WriteFile\<close>
  opens the file truncated (creating it), then writes the bytes, so that a crash leaves a
  prefix of them.
\<close>

definition WriteFile_states :: "fs \<Rightarrow> string \<Rightarrow> string \<Rightarrow> fs list" where
  "WriteFile_states d p data =
     (case fail d (OpWriteFile p) of
        Some e \<Rightarrow> []
      | None \<Rightarrow> map (\<lambda>n. d\<lparr>files := (files d)(p \<mapsto> take n data)\<rparr>) [0..<Suc (length data)])"

text \<open>The states that the disk passes through, in order, while \<open>saveToFile\<close> runs from
  the state \<open>d\<close>: the state after each operation, and the states inside each write.\<close>

definition saveToFile_states :: "fs \<Rightarrow> string \<Rightarrow> string \<Rightarrow> fs list" where
  "saveToFile_states d data file =
     (if os_IsNotExist (Stat d file) then WriteFile_states d file data
      else
        (case TempFile d (Dir file) ''config.json.tmp'' of
           Inl err \<Rightarrow> []
         | Inr (tmp, d1) \<Rightarrow>
             d1 #
             (case WriteFile d1 tmp data of
                (Some err, d2) \<Rightarrow> [deferred_Remove d2 tmp]
              | (None, d2) \<Rightarrow>
                  WriteFile_states d1 tmp data @
                  (case Close d2 tmp of
                     Some err \<Rightarrow> [deferred_Remove d2 tmp]
                   | None \<Rightarrow>
                       (case Remove d2 file of
                          (Some err, d3) \<Rightarrow> [deferred_Remove d3 tmp]
                        | (None, d3) \<Rightarrow>
                            d3 #
                            (case Rename d3 tmp file of
                               (Some err, d4) \<Rightarrow> [deferred_Remove d4 tmp]
                             | (None, d4) \<Rightarrow> [d4, deferred_Remove d4 tmp]))))))"

section \<open>Example configurations\<close>

text \<open>A cluster with three nodes, two of them carrying the store's annotation; every
  \<open>Get\<close> of the name \<open>n9\<close> fails with a transport error.\<close>

definition demo_cluster :: cluster where
  "demo_cluster =
     \<lparr>items =
        [\<lparr>node_Name = ''n1'',
          Annotations = [KubeMachineAnnotationKey \<mapsto> ''host:n1:generic''],
          Labels = [KubeMachineLabel \<mapsto> ''true'']\<rparr>,
         \<lparr>node_Name = ''n2'', Annotations = Map.empty, Labels = Map.empty\<rparr>,
         \<lparr>node_Name = ''n3'', Annotations = [KubeMachineAnnotationKey \<mapsto> ''x''],
          Labels = Map.empty\<rparr>],
      fail_Get = (\<lambda>n. if n = ''n9'' then Some (LibError ''connection refused'') else None),
      fail_Create = (\<lambda>n. None),
      fail_Update = (\<lambda>n. None),
      fail_List = None\<rparr>"

text \<open>A record, a record as an old schema decodes it (under another name), and a codec:
  the bytes \<open>x\<close> stand for a record of an old schema, which is migrated.\<close>

definition demo_host :: host where
  "demo_host =
     \<lparr>ConfigVersion = 3, Driver = RawConfig ''{ip: 10.0.0.1}'', DriverName = ''generic'',
      HostOptions = Some \<lparr>opt_Driver = ''generic'', Memory = 1024, Disk = 20000\<rparr>,
      Name = ''n1''\<rparr>"

definition legacy_host :: host where
  "legacy_host =
     \<lparr>ConfigVersion = 3, Driver = RawConfig ''{}'', DriverName = ''generic'',
      HostOptions = None, Name = ''legacy''\<rparr>"

definition demo_codec :: codec where
  "demo_codec =
     \<lparr>MarshalIndent = (\<lambda>h. Inr (''host:'' @ Name h @ '':'' @ DriverName h)),
      MigrateHost = (\<lambda>h data.
         if data = ''x'' then Inr (legacy_host, True)
         else if data = ''host:n1:generic'' then Inr (demo_host, False)
         else Inl (LibError ''invalid character''))\<rparr>"

text \<open>Wrappers around a provisioner that succeeds and around one that fails, and a local
  file system that holds the kubeconfig.\<close>

definition demo_wrapper :: KubeletProvisionerWrapper where
  "demo_wrapper =
     \<lparr>Provisioner = \<lparr>inner_Provision = None, inner_SSHCommand = (\<lambda>cmd. ([], None))\<rparr>,
      KubeconfigPath = ''/home/u/.kube/config''\<rparr>"



text \<open>A file-backed store whose disk already holds a record for \<open>n1\<close>.\<close>

definition demo_store :: NodeStore where
  "demo_store = \<lparr>NodeStore_Path = ''/var/km'', CaCertPath = [], CaPrivateKeyPath = []\<rparr>"

definition demo_fs :: fs where
  "demo_fs =
     \<lparr>files = [''/var/km/machines/n1/config.json'' \<mapsto> ''old''],
      dirs = {''/var/km/machines/n1''},
      suffix = ''0042'',
      fail = (\<lambda>op. None)\<rparr>"

text \<open>A disk on which the record of \<open>n1\<close> has not been saved yet.\<close>

definition fresh_fs :: fs where
  "fresh_fs =
     \<lparr>files = Map.empty, dirs = {''/var/km/machines/n1''}, suffix = ''0042'',
      fail = (\<lambda>op. None)\<rparr>"

text \<open>A disk that holds a record of an old schema for \<open>n3\<close>.\<close>

definition legacy_fs :: fs where
  "legacy_fs =
     \<lparr>files = [''/var/km/machines/n3/config.json'' \<mapsto> ''x''],
      dirs = {''/var/km/machines/n3''},
      suffix = ''0042'',
      fail = (\<lambda>op. None)\<rparr>"

text \<open>The cluster of the examples when every \<open>Update\<close> fails.\<close>

definition readonly_cluster :: cluster where
  "readonly_cluster = demo_cluster\<lparr>fail_Update := (\<lambda>n. Some (LibError ''etcd timeout''))\<rparr>"

section \<open>Properties\<close>

subsection \<open>List\<close>

lemma kube_List_loop_eq:
  "kube_List_loop acc ns =
     acc @ map node_Name (filter (\<lambda>x. KubeMachineAnnotationKey \<in> dom (Annotations x)) ns)"
  by (induction ns arbitrary: acc) (auto simp: dom_def)

lemma file_List_loop_eq: "file_List_loop acc ns = acc @ map node_Name ns"
  by (induction ns arbitrary: acc) auto

text \<open>
  C8. Whatever node list the API returns, \<open>List\<close> of the Kubernetes-backed store returns
  exactly the names of the nodes whose annotations contain the marker key, in the order of
  the list, and \<open>List\<close> of the file-backed store returns the names of all nodes.
\<close>

theorem List_names:
  assumes "Nodes_List c = Inr ns"
  shows "kube_List c =
           Inr (map node_Name (filter (\<lambda>x. KubeMachineAnnotationKey \<in> dom (Annotations x)) ns))
         \<and> file_List c = Inr (map node_Name ns)"
  using assms by (simp add: kube_List_def file_List_def kube_List_loop_eq file_List_loop_eq)

theorem List_names_witness:
  "Nodes_List demo_cluster = Inr (items demo_cluster)
   \<and> kube_List demo_cluster = Inr [''n1'', ''n3'']
   \<and> file_List demo_cluster = Inr [''n1'', ''n2'', ''n3'']"
proof -
  have h: "Nodes_List demo_cluster = Inr (items demo_cluster)"
    by (simp add: Nodes_List_def demo_cluster_def)
  show ?thesis
    using h List_names [OF h]
    by (simp add: demo_cluster_def KubeMachineAnnotationKey_def)
qed

subsection \<open>Exists\<close>

text \<open>
  C10. \<open>Exists\<close> (the same code in both stores) answers \<open>(true, nil)\<close> when the lookup
  succeeds, \<open>(false, nil)\<close> when the lookup reports not-found, and \<open>(false, err)\<close> for
  any other lookup error \<open>err\<close>: an absent node is never an error.
\<close>

theorem Exists_cases:
  "(Nodes_Get c n = Inr x \<longrightarrow>
      kube_Exists c n = (True, None) \<and> file_Exists c n = (True, None))
   \<and> (Nodes_Get c n = Inl e \<and> IsNotFound e \<longrightarrow>
      kube_Exists c n = (False, None) \<and> file_Exists c n = (False, None))
   \<and> (Nodes_Get c n = Inl e \<and> \<not> IsNotFound e \<longrightarrow>
      kube_Exists c n = (False, Some e) \<and> file_Exists c n = (False, Some e))"
  by (simp add: kube_Exists_def file_Exists_def)

theorem Exists_cases_witness:
  "Nodes_Get demo_cluster ''n2'' = Inr (items demo_cluster ! 1)
   \<and> kube_Exists demo_cluster ''n2'' = (True, None)
   \<and> file_Exists demo_cluster ''n2'' = (True, None)
   \<and> Nodes_Get demo_cluster ''n7'' = Inl (not_found ''n7'') \<and> IsNotFound (not_found ''n7'')
   \<and> kube_Exists demo_cluster ''n7'' = (False, None)
   \<and> file_Exists demo_cluster ''n7'' = (False, None)
   \<and> Nodes_Get demo_cluster ''n9'' = Inl (LibError ''connection refused'')
   \<and> \<not> IsNotFound (LibError ''connection refused'')
   \<and> kube_Exists demo_cluster ''n9'' = (False, Some (LibError ''connection refused''))
   \<and> file_Exists demo_cluster ''n9'' = (False, Some (LibError ''connection refused''))"
proof -
  have a: "Nodes_Get demo_cluster ''n2'' = Inr (items demo_cluster ! 1)"
    by (simp add: Nodes_Get_def demo_cluster_def)
  have b: "Nodes_Get demo_cluster ''n7'' = Inl (not_found ''n7'')"
    by (simp add: Nodes_Get_def demo_cluster_def)
  have b': "IsNotFound (not_found ''n7'')" by (simp add: not_found_def)
  have d: "Nodes_Get demo_cluster ''n9'' = Inl (LibError ''connection refused'')"
    by (simp add: Nodes_Get_def demo_cluster_def)
  have d': "\<not> IsNotFound (LibError ''connection refused'')" by simp
  show ?thesis
    using a b b' d d'
      Exists_cases [of demo_cluster "''n2''" "items demo_cluster ! 1" "LibError ''x''"]
      Exists_cases [of demo_cluster "''n7''" "items demo_cluster ! 1" "not_found ''n7''"]
      Exists_cases [of demo_cluster "''n9''" "items demo_cluster ! 1"
                       "LibError ''connection refused''"]
    by simp
qed

subsection \<open>The name of a loaded record\<close>

text \<open>
  C9. Whenever \<open>Load n\<close> succeeds, in either store, the record it returns has the name
  \<open>n\<close>, whatever name the migrated record carries; and whenever \<open>loadConfig\<close>
  succeeds, in either store, the record it returns has the name of the record it was given:
  the name is kept before the migration and put back afterwards.
\<close>

theorem Load_Name:
  "(kube_Load k c n = (Inr h, c') \<or> file_Load c n = Inr h \<longrightarrow> Name h = n)
   \<and> (kube_loadConfig k c node h0 = (Inr h, c') \<or> file_loadConfig k s d h0 = (Inr h, d')
        \<longrightarrow> Name h = Name h0)"
proof (intro conjI impI)
  assume "kube_Load k c n = (Inr h, c') \<or> file_Load c n = Inr h"
  then show "Name h = n"
    by (auto simp: kube_Load_def kube_loadConfig_def file_Load_def host_named_def Let_def
           split: sum.splits option.splits if_splits prod.splits)
next
  assume "kube_loadConfig k c node h0 = (Inr h, c') \<or> file_loadConfig k s d h0 = (Inr h, d')"
  then show "Name h = Name h0"
    by (auto simp: kube_loadConfig_def file_loadConfig_def Let_def
           split: sum.splits option.splits if_splits prod.splits)
qed

theorem Load_Name_witness:
  "kube_Load demo_codec demo_cluster ''n3''
     = (Inr (legacy_host\<lparr>Name := ''n3''\<rparr>), snd (kube_Load demo_codec demo_cluster ''n3''))
   \<and> Name legacy_host = ''legacy''
   \<and> Name (legacy_host\<lparr>Name := ''n3''\<rparr>) = ''n3''"
proof -
  have a: "fst (kube_Load demo_codec demo_cluster ''n3'') = Inr (legacy_host\<lparr>Name := ''n3''\<rparr>)"
    by (simp add: kube_Load_def kube_loadConfig_def kube_Save_def Nodes_Get_def Nodes_Update_def
          demo_cluster_def demo_codec_def host_named_def Let_def)
  have b: "kube_Load demo_codec demo_cluster ''n3''
     = (Inr (legacy_host\<lparr>Name := ''n3''\<rparr>), snd (kube_Load demo_codec demo_cluster ''n3''))"
    using a by (simp add: prod_eq_iff)
  have "Name (legacy_host\<lparr>Name := ''n3''\<rparr>) = ''n3''"
    using b Load_Name [where k = demo_codec and c = demo_cluster and n = "''n3''"
                          and h = "legacy_host\<lparr>Name := ''n3''\<rparr>"
                          and c' = "snd (kube_Load demo_codec demo_cluster ''n3'')"]
    by blast
  with b show ?thesis by (simp add: legacy_host_def)
qed

subsection \<open>The remote copy\<close>

lemma render_cmd_text:
  "render cmd_text c =
     ''touch '' @ Path c @ '' && chmod '' @ Chmod c @ '' '' @ Path c @ '' && echo ''
     @ [CHR 0x22] @ Data64 c @ [CHR 0x22] @ '' | base64 -d >> '' @ Path c"
  by (simp add: cmd_text_def render.simps)

text \<open>The template of \<open>scp\<close> is named, never parsed: \<open>Execute\<close> fails and no command
  reaches the node.\<close>

lemma scp_unparsed: "scp_with template_New p log data path chmod = (Some unparsed_error, log)"
  by (simp add: scp_with_def template_Execute_def template_New_def unparsed_error_def)

text \<open>With the command text as the body of the template, \<open>scp\<close> runs one command, on
  \<open>/etc/kubeconfig\<close> whatever \<open>path\<close> is, and wraps the error of a failed command in a
  new error.\<close>

lemma scp_parsed:
  "scp_with template_parsed p log data path ''0600'' =
     (case inner_SSHCommand (Provisioner p) (kubeconfig_cmd data) of
        (out, Some err) \<Rightarrow>
           (Some (Errorf (''Failed to run SSH command (error: '' @ error_msg err @ ''): '' @ out)),
            log @ [CallSSH (kubeconfig_cmd data)])
      | (out, None) \<Rightarrow> (None, log @ [CallSSH (kubeconfig_cmd data)]))"
  by (simp add: scp_with_def template_Execute_def template_parsed_def template_Parse_def
        template_New_def render_cmd_text nodeKubeconfigPath_def kubeconfig_cmd_def Let_def
      split: prod.splits option.splits)

text \<open>
  C2 (the code at the copy of the kubelet unit). The claim gives the command
  \<open>touch p && chmod m p && echo "b" | base64 -d >> p\<close> with \<open>p\<close> the destination of the
  file. For the kubelet unit, \<open>scp\<close> as written runs no command at all (the template has no
  body); and once the command text is the body, the command it runs writes to
  \<open>/etc/kubeconfig\<close>, not to \<open>/etc/systemd/system/kubelet.service\<close>, because the context
  takes \<open>nodeKubeconfigPath\<close> and never the parameter \<open>path\<close>.
\<close>

theorem scp_kubelet_unit:
  "scp p log kubeletUnitFile kubeletUnitPath ''0600'' = (Some unparsed_error, log)
   \<and> scp_with template_parsed demo_wrapper log kubeletUnitFile kubeletUnitPath ''0600''
       = (None, log @ [CallSSH (''touch /etc/kubeconfig && chmod 0600 /etc/kubeconfig && echo ''
                  @ [CHR 0x22] @ EncodeToString kubeletUnitFile @ [CHR 0x22]
                  @ '' | base64 -d >> /etc/kubeconfig'')])"
proof
  show "scp p log kubeletUnitFile kubeletUnitPath ''0600'' = (Some unparsed_error, log)"
    unfolding scp_def by (rule scp_unparsed)
next
  have "inner_SSHCommand (Provisioner demo_wrapper) (kubeconfig_cmd kubeletUnitFile) = ([], None)"
    by (simp add: demo_wrapper_def)
  then have "scp_with template_parsed demo_wrapper log kubeletUnitFile kubeletUnitPath ''0600''
       = (None, log @ [CallSSH (kubeconfig_cmd kubeletUnitFile)])"
    by (simp add: scp_parsed)
  then show "scp_with template_parsed demo_wrapper log kubeletUnitFile kubeletUnitPath ''0600''
       = (None, log @ [CallSSH (''touch /etc/kubeconfig && chmod 0600 /etc/kubeconfig && echo ''
                  @ [CHR 0x22] @ EncodeToString kubeletUnitFile @ [CHR 0x22]
                  @ '' | base64 -d >> /etc/kubeconfig'')])"
    unfolding kubeconfig_cmd_def .
qed

subsection \<open>Provision\<close>



text \<open>As written, with the template only named, \<open>Provision\<close> always stops at the first
  copy once the provisioner and the read of the kubeconfig have succeeded: it returns the
  error of the template and no command has been run on the node.\<close>

lemma Provision_as_written:
  "inner_Provision (Provisioner p) = None \<Longrightarrow> readFile (KubeconfigPath p) = Inr data \<Longrightarrow>
     Provision readFile p
       = (Some unparsed_error, [CallProvision, CallReadFile (KubeconfigPath p)])"
  by (simp add: Provision_def Provision_with_def scp_unparsed)

subsection \<open>Paths\<close>

lemma Dir_Join:
  assumes "a \<noteq> []" "b \<noteq> []" "CHR ''/'' \<notin> set b"
  shows "Dir (Join a b) = a"
proof -
  have j: "Join a b = a @ ''/'' @ b" using assms by (simp add: Join_def)
  have "dropWhile (\<lambda>c. c \<noteq> CHR ''/'') (rev b @ ''/'' @ rev a) = ''/'' @ rev a"
    using assms(3) by (subst dropWhile_append2) auto
  then show ?thesis using assms(1) by (simp add: Dir_def j)
qed

lemma Dir_nonempty: "Dir p \<noteq> []"
  by (simp add: Dir_def Let_def)

lemma Dir_tmp_name:
  "CHR ''/'' \<notin> set (suffix d) \<Longrightarrow> Dir (tmp_name d file) = Dir file"
  unfolding tmp_name_def by (rule Dir_Join) (simp_all add: Dir_nonempty)

subsection \<open>Saving to a file\<close>

lemma Remove_frame:
  "Remove d p = (r, d') \<Longrightarrow>
     dirs d' = dirs d \<and> fail d' = fail d \<and> suffix d' = suffix d
     \<and> (\<forall>q. q \<noteq> p \<longrightarrow> files d' q = files d q)"
  by (auto simp: Remove_def split: option.splits if_splits)

lemma deferred_Remove_frame:
  "dirs (deferred_Remove d p) = dirs d \<and> fail (deferred_Remove d p) = fail d
   \<and> suffix (deferred_Remove d p) = suffix d
   \<and> (\<forall>q. q \<noteq> p \<longrightarrow> files (deferred_Remove d p) q = files d q)"
  using Remove_frame [of d p "fst (Remove d p)" "snd (Remove d p)"]
  by (simp add: deferred_Remove_def)

lemma saveToFile_ok:
  assumes "saveToFile d data file = (None, d')"
  shows "files d' file = Some data"
proof (cases "os_IsNotExist (Stat d file)")
  case True
  with assms show ?thesis
    by (auto simp: saveToFile_def WriteFile_def split: option.splits)
next
  case False
  with assms show ?thesis
    by (auto simp: saveToFile_def WriteFile_def TempFile_def Close_def Remove_def Rename_def
          deferred_Remove_def Let_def
          split: option.splits sum.splits prod.splits if_splits)
qed

lemma saveToFile_frame:
  assumes "saveToFile d data file = (r, d')"
  shows "dirs d' = dirs d \<and> fail d' = fail d \<and> suffix d' = suffix d
     \<and> (\<forall>q. q \<noteq> file \<and> q \<noteq> tmp_name d file \<longrightarrow> files d' q = files d q)"
proof (cases "os_IsNotExist (Stat d file)")
  case True
  with assms show ?thesis
    by (auto simp: saveToFile_def WriteFile_def split: option.splits)
next
  case False
  with assms show ?thesis
    by (auto simp: saveToFile_def WriteFile_def TempFile_def Close_def Remove_def Rename_def
          deferred_Remove_def Let_def tmp_name_def
          split: option.splits sum.splits prod.splits if_splits)
qed

subsection \<open>Save\<close>

lemma find_append_new:
  "find P xs = None \<Longrightarrow> find P (xs @ [x]) = (if P x then Some x else None)"
  by (induction xs) (auto split: if_splits)

lemma find_replace:
  "find (\<lambda>y. node_Name y = n) xs = Some old \<Longrightarrow> node_Name x = n \<Longrightarrow>
     find (\<lambda>y. node_Name y = n) (map (\<lambda>y. if node_Name y = n then x else y) xs) = Some x"
  by (induction xs) (auto split: if_splits)

lemma find_name: "find (\<lambda>y. node_Name y = n) xs = Some x \<Longrightarrow> node_Name x = n"
  by (induction xs) (auto split: if_splits)

lemma kube_Save_ok:
  assumes "kube_Save k c h = (None, c')"
  shows "\<exists>data. MarshalIndent k h = Inr data
           \<and> find (\<lambda>x. node_Name x = Name h) (items c')
                = Some (marked (find (\<lambda>x. node_Name x = Name h) (items c)) (Name h) data)
           \<and> items c' =
               (case find (\<lambda>x. node_Name x = Name h) (items c) of
                  None \<Rightarrow> items c @ [marked None (Name h) data]
                | Some old \<Rightarrow> map (\<lambda>y. if node_Name y = Name h
                                       then marked (Some old) (Name h) data else y) (items c))"
proof -
  from assms obtain data where m: "MarshalIndent k h = Inr data"
    by (auto simp: kube_Save_def split: sum.splits)
  let ?P = "\<lambda>x. node_Name x = Name h"
  show ?thesis
  proof (cases "Nodes_Get c (Name h)")
    case (Inl err)
    with assms m have nf: "IsNotFound err"
      and cr: "Nodes_Create c (marked None (Name h) data) = (None, c')"
      by (auto simp: kube_Save_def marked_def split: if_splits)
    from cr have f: "find ?P (items c) = None"
      and i: "items c' = items c @ [marked None (Name h) data]"
      by (auto simp: Nodes_Create_def marked_def split: option.splits)
    from f i m show ?thesis
      by (simp add: find_append_new) (simp add: marked_def)
  next
    case (Inr node)
    then have f: "find ?P (items c) = Some node"
      by (auto simp: Nodes_Get_def split: option.splits)
    then have nn: "node_Name node = Name h" by (rule find_name)
    from assms m Inr have up: "Nodes_Update c (marked (Some node) (Name h) data) = (None, c')"
      by (simp add: kube_Save_def marked_def)
    have nm: "node_Name (marked (Some node) (Name h) data) = Name h"
      using nn by (simp add: marked_def)
    from up nm f have i: "items c' = map (\<lambda>y. if node_Name y = Name h
                                       then marked (Some node) (Name h) data else y) (items c)"
      by (auto simp: Nodes_Update_def split: option.splits)
    from f i m nm show ?thesis
      by (simp add: find_replace)
  qed
qed

lemma marked_has:
  "Annotations (marked old n data) KubeMachineAnnotationKey = Some data
   \<and> Labels (marked old n data) KubeMachineLabel = Some ''true''"
  by (simp add: marked_def split: option.splits)

lemma kube_Save_succeeds:
  assumes "MarshalIndent k h = Inr data" "fail_Get c (Name h) = None"
    "fail_Create c (Name h) = None" "fail_Update c (Name h) = None"
  shows "fst (kube_Save k c h) = None"
proof (cases "find (\<lambda>x. node_Name x = Name h) (items c)")
  case None
  with assms show ?thesis
    by (simp add: kube_Save_def Nodes_Get_def Nodes_Create_def not_found_def)
next
  case (Some node)
  then have "node_Name node = Name h" by (rule find_name)
  with Some assms show ?thesis
    by (simp add: kube_Save_def Nodes_Get_def Nodes_Update_def)
qed




lemma saveToFile_succeeds:
  assumes nf: "\<And>op. fail d op = None"
    and "file \<notin> dirs d" "files d (tmp_name d file) = None" "tmp_name d file \<notin> dirs d"
  shows "fst (saveToFile d data file) = None"
proof (cases "files d file")
  case None
  with assms show ?thesis
    by (simp add: saveToFile_def Stat_def os_IsNotExist_def WriteFile_def)
next
  case (Some old)
  with assms have ne: "tmp_name d file \<noteq> file" by auto
  with Some assms show ?thesis
    by (simp add: saveToFile_def Stat_def os_IsNotExist_def WriteFile_def TempFile_def
          tmp_name_def Let_def Close_def Remove_def Rename_def)
qed

lemma file_Save_succeeds:
  assumes m: "MarshalIndent k h = Inr data"
    and nf: "\<And>op. fail d op = None"
    and hp: "files d (Join (GetMachinesDir s) (Name h)) = None"
    and cfg: "Join (Join (GetMachinesDir s) (Name h)) ''config.json'' \<notin> dirs d"
        "Join (Join (GetMachinesDir s) (Name h)) ''config.json'' \<noteq> Join (GetMachinesDir s) (Name h)"
    and tmp: "files d (tmp_name d (Join (Join (GetMachinesDir s) (Name h)) ''config.json'')) = None"
        "tmp_name d (Join (Join (GetMachinesDir s) (Name h)) ''config.json'') \<notin> dirs d"
        "tmp_name d (Join (Join (GetMachinesDir s) (Name h)) ''config.json'')
           \<noteq> Join (GetMachinesDir s) (Name h)"
  shows "fst (file_Save k s d h) = None"
proof -
  let ?hp = "Join (GetMachinesDir s) (Name h)"
  let ?d1 = "d\<lparr>dirs := insert ?hp (dirs d)\<rparr>"
  have mk: "MkdirAll d ?hp = (None, ?d1)"
    using nf hp by (simp add: MkdirAll_def)
  have "fst (saveToFile ?d1 data (Join ?hp ''config.json'')) = None"
    using nf cfg tmp by (intro saveToFile_succeeds) (auto simp: tmp_name_def)
  with m mk show ?thesis
    by (simp add: file_Save_def Let_def)
qed

lemma demo_file_Save: "fst (file_Save demo_codec demo_store demo_fs demo_host) = None"
  by (simp add: file_Save_def demo_codec_def demo_store_def demo_fs_def demo_host_def
      GetMachinesDir_def Join_def MkdirAll_def saveToFile_def Stat_def os_IsNotExist_def
      TempFile_def Dir_def WriteFile_def Close_def Remove_def Rename_def Let_def)




subsection \<open>The states of the disk during a save\<close>

lemma last_WriteFile_states:
  "fail d (OpWriteFile p) = None \<Longrightarrow>
     last (d0 # WriteFile_states d p data) = snd (WriteFile d p data)"
  by (simp add: WriteFile_states_def WriteFile_def last_map del: upt_Suc)

lemma WriteFile_states_nonempty:
  "fail d (OpWriteFile p) = None \<Longrightarrow> WriteFile_states d p data \<noteq> []"
  by (simp add: WriteFile_states_def)

lemma WriteFile_states_empty:
  "fail d (OpWriteFile p) = Some e \<Longrightarrow> WriteFile_states d p data = []"
  by (simp add: WriteFile_states_def)

lemma saveToFile_states_last:
  "last (d # saveToFile_states d data file) = snd (saveToFile d data file)"
proof (cases "os_IsNotExist (Stat d file)")
  case True
  show ?thesis
  proof (cases "fail d (OpWriteFile file)")
    case None
    with True last_WriteFile_states [OF None, of d data] show ?thesis
      by (simp add: saveToFile_states_def saveToFile_def)
  next
    case (Some e)
    with True show ?thesis
      by (simp add: saveToFile_states_def saveToFile_def WriteFile_states_empty WriteFile_def)
  qed
next
  case False
  then show ?thesis
    by (auto simp: saveToFile_states_def saveToFile_def WriteFile_def
          split: sum.splits prod.splits option.splits)
qed

lemma WriteFile_states_other:
  "st \<in> set (WriteFile_states d p data) \<Longrightarrow> q \<noteq> p \<Longrightarrow> files st q = files d q"
  by (auto simp: WriteFile_states_def split: option.splits)

lemma saveToFile_states_dest:
  assumes old: "files d file = Some old" and st: "fail d (OpStat file) \<noteq> Some ErrNotExist"
    and mem: "x \<in> set (saveToFile_states d data file)"
  shows "files x file = Some old \<or> files x file = None \<or> files x file = Some data"
proof -
  from old st have ne: "\<not> os_IsNotExist (Stat d file)"
    by (auto simp: os_IsNotExist_def Stat_def split: option.splits)
  show ?thesis
  proof (cases "TempFile d (Dir file) ''config.json.tmp''")
    case (Inl e)
    with ne mem show ?thesis by (simp add: saveToFile_states_def)
  next
    case (Inr r)
    obtain tmp d1 where r: "r = (tmp, d1)" by (cases r)
    from Inr r old have tf: "tmp \<noteq> file" and d1: "d1 = d\<lparr>files := (files d)(tmp \<mapsto> [])\<rparr>"
      by (auto simp: TempFile_def Let_def split: option.splits if_splits)
    have w: "\<And>y. y \<in> set (WriteFile_states d1 tmp data) \<Longrightarrow> files y file = Some old"
      using WriteFile_states_other [where d = d1 and p = tmp and data = data and q = "file"]
        tf d1 old by auto
    from mem ne Inr r tf d1 old w show ?thesis
      by (auto simp: saveToFile_states_def WriteFile_def Close_def Remove_def Rename_def
            deferred_Remove_def
            split: option.splits if_splits)
  qed
qed

lemma saveToFile_states_frame:
  assumes mem: "x \<in> set (saveToFile_states d data file)"
    and q: "q \<noteq> file" "q \<noteq> tmp_name d file"
  shows "files x q = files d q"
proof (cases "os_IsNotExist (Stat d file)")
  case True
  with mem q show ?thesis
    by (auto simp: saveToFile_states_def dest: WriteFile_states_other)
next
  case False
  show ?thesis
  proof (cases "TempFile d (Dir file) ''config.json.tmp''")
    case (Inl e)
    with False mem show ?thesis by (simp add: saveToFile_states_def)
  next
    case (Inr r)
    obtain tmp d1 where r: "r = (tmp, d1)" by (cases r)
    from Inr r have tn: "tmp = tmp_name d file" and d1: "d1 = d\<lparr>files := (files d)(tmp \<mapsto> [])\<rparr>"
      by (auto simp: TempFile_def Let_def tmp_name_def split: option.splits if_splits)
    have w: "\<And>y. y \<in> set (WriteFile_states d1 tmp data) \<Longrightarrow> files y q = files d q"
      using WriteFile_states_other [where d = d1 and p = tmp and data = data and q = q]
        tn d1 q by auto
    from mem False Inr r tn d1 q w show ?thesis
      by (auto simp: saveToFile_states_def WriteFile_def Close_def Remove_def Rename_def
            deferred_Remove_def
            split: option.splits if_splits)
  qed
qed

lemma saveToFile_first:
  assumes "files d file = None" "file \<notin> dirs d" "fail d (OpStat file) = None"
  shows "saveToFile d data file = WriteFile d file data
         \<and> saveToFile_states d data file = WriteFile_states d file data"
  using assms by (simp add: saveToFile_def saveToFile_states_def Stat_def os_IsNotExist_def)

lemma demo_states_5:
  "files (saveToFile_states demo_fs ''new'' ''/var/km/machines/n1/config.json'' ! 5)
     ''/var/km/machines/n1/config.json'' = None"
  by (simp add: saveToFile_states_def demo_fs_def Stat_def os_IsNotExist_def TempFile_def
        Dir_def Join_def WriteFile_def WriteFile_states_def Close_def Remove_def Rename_def
        deferred_Remove_def Let_def upt_rec nth_append)

lemma fresh_states_1:
  "files (saveToFile_states fresh_fs ''new'' ''/var/km/machines/n1/config.json'' ! 1)
     ''/var/km/machines/n1/config.json'' = Some ''n''"
  by (simp add: saveToFile_states_def fresh_fs_def Stat_def os_IsNotExist_def
        WriteFile_states_def upt_rec)

lemma demo_states_length:
  "length (saveToFile_states demo_fs ''new'' ''/var/km/machines/n1/config.json'') = 8"
  by (simp add: saveToFile_states_def demo_fs_def Stat_def os_IsNotExist_def TempFile_def
        Dir_def Join_def WriteFile_def WriteFile_states_def Close_def Remove_def Rename_def
        deferred_Remove_def Let_def)

lemma fresh_states_length:
  "length (saveToFile_states fresh_fs ''new'' ''/var/km/machines/n1/config.json'') = 4"
  by (simp add: saveToFile_states_def fresh_fs_def Stat_def os_IsNotExist_def
        WriteFile_states_def)

text \<open>
  C4 as stated does not hold. Saving \<open>new\<close> over a destination that holds \<open>old\<close>
  passes through a state in which the destination is absent (after \<open>os.Remove\<close>, before
  \<open>os.Rename\<close>); and the first save to a destination writes it directly, so that it
  holds a proper prefix of the data on the way.
\<close>

theorem saveToFile_not_atomic:
  "files demo_fs ''/var/km/machines/n1/config.json'' = Some ''old''
   \<and> length (saveToFile_states demo_fs ''new'' ''/var/km/machines/n1/config.json'') = 8
   \<and> files (saveToFile_states demo_fs ''new'' ''/var/km/machines/n1/config.json'' ! 5)
        ''/var/km/machines/n1/config.json'' = None
   \<and> files fresh_fs ''/var/km/machines/n1/config.json'' = None
   \<and> length (saveToFile_states fresh_fs ''new'' ''/var/km/machines/n1/config.json'') = 4
   \<and> files (saveToFile_states fresh_fs ''new'' ''/var/km/machines/n1/config.json'' ! 1)
        ''/var/km/machines/n1/config.json'' = Some ''n''"
  using demo_states_5 fresh_states_1 demo_states_length fresh_states_length
  by (simp add: demo_fs_def fresh_fs_def)

text \<open>
  C4, amended. When the destination exists (and \<open>os.Stat\<close> does not report it
  missing), then in every state that the disk passes through during \<open>saveToFile\<close>, crash states inside a write included and whatever
  operation fails, the destination holds its previous complete content, is absent, or holds
  the new complete content. No file other than the destination and the temporary file is
  touched, and the temporary file lies in the directory of the destination. When the
  destination does not exist, \<open>saveToFile\<close> is the direct write of the destination. The
  last state of the run is the state in which \<open>saveToFile\<close> returns.
\<close>

theorem saveToFile_steps_dest:
  "(files d file = Some old \<and> fail d (OpStat file) \<noteq> Some ErrNotExist \<longrightarrow>
      (\<forall>x \<in> set (saveToFile_states d data file).
          files x file = Some old \<or> files x file = None \<or> files x file = Some data))
   \<and> (\<forall>x \<in> set (saveToFile_states d data file).
          \<forall>q. q \<noteq> file \<and> q \<noteq> tmp_name d file \<longrightarrow> files x q = files d q)
   \<and> (CHR ''/'' \<notin> set (suffix d) \<longrightarrow> Dir (tmp_name d file) = Dir file)
   \<and> (files d file = None \<and> file \<notin> dirs d \<and> fail d (OpStat file) = None \<longrightarrow>
        saveToFile d data file = WriteFile d file data
        \<and> saveToFile_states d data file = WriteFile_states d file data)
   \<and> last (d # saveToFile_states d data file) = snd (saveToFile d data file)"
  using saveToFile_states_dest [of d "file" old _ data]
    saveToFile_states_frame [of _ d data "file"] Dir_tmp_name [of d "file"]
    saveToFile_first [of d "file" data] saveToFile_states_last [of d data "file"]
  by blast

theorem saveToFile_steps_dest_witness:
  "files demo_fs ''/var/km/machines/n1/config.json'' = Some ''old''
   \<and> fail demo_fs (OpStat ''/var/km/machines/n1/config.json'') \<noteq> Some ErrNotExist
   \<and> saveToFile_states demo_fs ''new'' ''/var/km/machines/n1/config.json'' ! 6
        \<in> set (saveToFile_states demo_fs ''new'' ''/var/km/machines/n1/config.json'')
   \<and> (files (saveToFile_states demo_fs ''new'' ''/var/km/machines/n1/config.json'' ! 6)
          ''/var/km/machines/n1/config.json'' = Some ''old''
        \<or> files (saveToFile_states demo_fs ''new'' ''/var/km/machines/n1/config.json'' ! 6)
          ''/var/km/machines/n1/config.json'' = None
        \<or> files (saveToFile_states demo_fs ''new'' ''/var/km/machines/n1/config.json'' ! 6)
          ''/var/km/machines/n1/config.json'' = Some ''new'')
   \<and> last (demo_fs # saveToFile_states demo_fs ''new'' ''/var/km/machines/n1/config.json'')
        = snd (saveToFile demo_fs ''new'' ''/var/km/machines/n1/config.json'')"
proof -
  let ?f = "''/var/km/machines/n1/config.json''"
  let ?S = "saveToFile_states demo_fs ''new'' ?f"
  have a: "files demo_fs ?f = Some ''old''"
    and b: "fail demo_fs (OpStat ?f) \<noteq> Some ErrNotExist"
    by (simp_all add: demo_fs_def)
  have m: "?S ! 6 \<in> set ?S"
    by (rule nth_mem) (simp add: demo_states_length)
  from saveToFile_steps_dest [where d = demo_fs and ?file = ?f and old = "''old''"
                                and data = "''new''"] a b m
  show ?thesis by blast
qed

subsection \<open>Loading: migration, backup and re-save\<close>

lemma hostPath_nonempty: "Join (GetMachinesDir s) n \<noteq> []"
  by (simp add: Join_def GetMachinesDir_def)

lemma tmp_name_config:
  "hp \<noteq> [] \<Longrightarrow> tmp_name d (Join hp ''config.json'') = hp @ ''/config.json.tmp'' @ suffix d"
  by (simp add: tmp_name_def Dir_Join) (simp add: Join_def)

lemma tmp_name_bak:
  "hp \<noteq> [] \<Longrightarrow> tmp_name d (Join hp ''config.json.bak'') = hp @ ''/config.json.tmp'' @ suffix d"
  by (simp add: tmp_name_def Dir_Join) (simp add: Join_def)

lemma Join_config: "hp \<noteq> [] \<Longrightarrow> Join hp ''config.json'' = hp @ ''/config.json''"
  and Join_bak: "hp \<noteq> [] \<Longrightarrow> Join hp ''config.json.bak'' = hp @ ''/config.json.bak''"
  by (simp_all add: Join_def)

lemma file_Save_frame:
  assumes "file_Save k s d h = (r, d')"
  shows "files d' (Join (Join (GetMachinesDir s) (Name h)) ''config.json.bak'')
           = files d (Join (Join (GetMachinesDir s) (Name h)) ''config.json.bak'')"
proof (cases "MarshalIndent k h")
  case (Inl e)
  with assms show ?thesis by (simp add: file_Save_def)
next
  case (Inr data)
  let ?hp = "Join (GetMachinesDir s) (Name h)"
  have ne: "?hp \<noteq> []" by (rule hostPath_nonempty)
  show ?thesis
  proof (cases "MkdirAll d ?hp")
    case (Pair e d1)
    have f1: "files d1 = files d \<and> suffix d1 = suffix d"
      using Pair by (auto simp: MkdirAll_def split: option.splits if_splits)
    show ?thesis
    proof (cases e)
      case (Some err)
      with assms Inr Pair f1 show ?thesis by (simp add: file_Save_def Let_def)
    next
      case None
      with assms Inr Pair have sv: "saveToFile d1 data (Join ?hp ''config.json'') = (r, d')"
        by (simp add: file_Save_def Let_def)
      have "Join ?hp ''config.json.bak'' \<noteq> Join ?hp ''config.json''"
        and "Join ?hp ''config.json.bak'' \<noteq> tmp_name d1 (Join ?hp ''config.json'')"
        using ne by (simp_all add: tmp_name_config) (simp_all add: Join_config Join_bak)
      with saveToFile_frame [OF sv] f1 show ?thesis by simp
    qed
  qed
qed

lemma backup_frame:
  assumes "saveToFile d data (Join hp ''config.json.bak'') = (r, d1)" and "hp \<noteq> []"
  shows "files d1 (Join hp ''config.json'') = files d (Join hp ''config.json'')"
proof -
  have "Join hp ''config.json'' \<noteq> Join hp ''config.json.bak''"
    and "Join hp ''config.json'' \<noteq> tmp_name d (Join hp ''config.json.bak'')"
    using assms(2) by (simp_all add: tmp_name_bak) (simp_all add: Join_config Join_bak)
  with saveToFile_frame [OF assms(1)] show ?thesis by simp
qed

lemma kube_loadConfig_change:
  assumes "kube_loadConfig k c node h = (r, c')" "c' \<noteq> c"
  shows "\<exists>data m. Annotations node KubeMachineAnnotationKey = Some data
           \<and> MigrateHost k h data = Inr (m, True)"
  using assms
  by (auto simp: kube_loadConfig_def Let_def split: option.splits sum.splits prod.splits if_splits)

lemma kube_loadConfig_resaved:
  assumes "Annotations node KubeMachineAnnotationKey = Some data"
    "MigrateHost k h data = Inr (m, True)" "kube_loadConfig k c node h = (Inr h', c')"
  shows "h' = m\<lparr>Name := Name h\<rparr> \<and> kube_Save k c h' = (None, c')"
  using assms
  by (auto simp: kube_loadConfig_def Let_def split: option.splits prod.splits)

lemma file_loadConfig_change:
  assumes "file_loadConfig k s d h = (r, d')" "d' \<noteq> d"
  shows "\<exists>data m. ReadFile d (Join (Join (GetMachinesDir s) (Name h)) ''config.json'') = Inr data
           \<and> MigrateHost k h data = Inr (m, True)"
  using assms
  by (auto simp: file_loadConfig_def Let_def split: option.splits sum.splits prod.splits if_splits)

lemma file_loadConfig_resaved:
  assumes rd: "ReadFile d (Join (Join (GetMachinesDir s) (Name h)) ''config.json'') = Inr data"
    and mg: "MigrateHost k h data = Inr (m, True)"
    and ld: "file_loadConfig k s d h = (Inr h', d')"
  shows "h' = m\<lparr>Name := Name h\<rparr>
         \<and> (\<exists>d1. saveToFile d data (Join (Join (GetMachinesDir s) (Name h)) ''config.json.bak'')
                     = (None, d1)
                 \<and> file_Save k s d1 h' = (None, d'))
         \<and> files d' (Join (Join (GetMachinesDir s) (Name h)) ''config.json.bak'') = Some data"
proof -
  let ?bak = "Join (Join (GetMachinesDir s) (Name h)) ''config.json.bak''"
  let ?h = "m\<lparr>Name := Name h\<rparr>"
  from rd mg ld obtain d1 where b: "saveToFile d data ?bak = (None, d1)"
    and sv: "file_Save k s d1 ?h = (None, d')" and h': "h' = ?h"
    by (auto simp: file_loadConfig_def Let_def split: option.splits prod.splits)
  from saveToFile_ok [OF b] have "files d1 ?bak = Some data" .
  with file_Save_frame [OF sv] have "files d' ?bak = Some data" by simp
  with b sv h' show ?thesis by blast
qed

lemma file_loadConfig_backup_fails:
  assumes rd: "ReadFile d (Join (Join (GetMachinesDir s) (Name h)) ''config.json'') = Inr data"
    and mg: "MigrateHost k h data = Inr (m, True)"
    and b: "saveToFile d data (Join (Join (GetMachinesDir s) (Name h)) ''config.json.bak'')
              = (Some e, d1)"
  shows "file_loadConfig k s d h
           = (Inl (Errorf (''Error attempting to save backup after migration: '' @ error_msg e)), d1)
         \<and> files d1 (Join (Join (GetMachinesDir s) (Name h)) ''config.json'')
             = files d (Join (Join (GetMachinesDir s) (Name h)) ''config.json'')"
  using rd mg b backup_frame [OF b hostPath_nonempty]
  by (simp add: file_loadConfig_def Let_def)

text \<open>
  C6. In \<open>loadConfig\<close> of both stores:
  \<^item> when the migration routine reports no migration, the record is returned and the backing
    store is left as it was;
  \<^item> whenever the backing store is changed at all, the migration routine had reported a
    migration;
  \<^item> when it reports a migration and the load succeeds, the store is the result of a successful
    \<open>Save\<close> of the migrated record (under the requested name); in the file-backed store
    this \<open>Save\<close> starts from the disk left by the successful write of the original bytes
    to \<open>config.json.bak\<close>, and the backup still holds these bytes at the end;
  \<^item> in the file-backed store, when the backup write fails the load fails with the disk left
    by that write, in which \<open>config.json\<close> is as before: nothing is saved before the
    backup.
\<close>

theorem loadConfig_resave:
  "(Annotations node KubeMachineAnnotationKey = Some data
      \<and> MigrateHost k h data = Inr (m, False) \<longrightarrow>
        kube_loadConfig k c node h = (Inr (m\<lparr>Name := Name h\<rparr>), c))
   \<and> (kube_loadConfig k c node h = (r, c') \<and> c' \<noteq> c \<longrightarrow>
        (\<exists>data m. Annotations node KubeMachineAnnotationKey = Some data
           \<and> MigrateHost k h data = Inr (m, True)))
   \<and> (Annotations node KubeMachineAnnotationKey = Some data
      \<and> MigrateHost k h data = Inr (m, True)
      \<and> kube_loadConfig k c node h = (Inr h', c') \<longrightarrow>
        h' = m\<lparr>Name := Name h\<rparr> \<and> kube_Save k c h' = (None, c'))
   \<and> (ReadFile d (Join (Join (GetMachinesDir s) (Name h)) ''config.json'') = Inr data
      \<and> MigrateHost k h data = Inr (m, False) \<longrightarrow>
        file_loadConfig k s d h = (Inr (m\<lparr>Name := Name h\<rparr>), d))
   \<and> (file_loadConfig k s d h = (fr, d') \<and> d' \<noteq> d \<longrightarrow>
        (\<exists>data m. ReadFile d (Join (Join (GetMachinesDir s) (Name h)) ''config.json'')
                     = Inr data
           \<and> MigrateHost k h data = Inr (m, True)))
   \<and> (ReadFile d (Join (Join (GetMachinesDir s) (Name h)) ''config.json'') = Inr data
      \<and> MigrateHost k h data = Inr (m, True)
      \<and> file_loadConfig k s d h = (Inr h', d') \<longrightarrow>
        h' = m\<lparr>Name := Name h\<rparr>
        \<and> (\<exists>d1. saveToFile d data (Join (Join (GetMachinesDir s) (Name h)) ''config.json.bak'')
                    = (None, d1)
                \<and> file_Save k s d1 h' = (None, d'))
        \<and> files d' (Join (Join (GetMachinesDir s) (Name h)) ''config.json.bak'') = Some data)
   \<and> (ReadFile d (Join (Join (GetMachinesDir s) (Name h)) ''config.json'') = Inr data
      \<and> MigrateHost k h data = Inr (m, True)
      \<and> saveToFile d data (Join (Join (GetMachinesDir s) (Name h)) ''config.json.bak'')
           = (Some e, d1) \<longrightarrow>
        file_loadConfig k s d h
          = (Inl (Errorf (''Error attempting to save backup after migration: '' @ error_msg e)),
             d1)
        \<and> files d1 (Join (Join (GetMachinesDir s) (Name h)) ''config.json'')
            = files d (Join (Join (GetMachinesDir s) (Name h)) ''config.json''))"
proof (intro conjI impI)
  assume "Annotations node KubeMachineAnnotationKey = Some data
      \<and> MigrateHost k h data = Inr (m, False)"
  then show "kube_loadConfig k c node h = (Inr (m\<lparr>Name := Name h\<rparr>), c)"
    by (simp add: kube_loadConfig_def Let_def)
next
  assume "kube_loadConfig k c node h = (r, c') \<and> c' \<noteq> c"
  then show "\<exists>data m. Annotations node KubeMachineAnnotationKey = Some data
           \<and> MigrateHost k h data = Inr (m, True)"
    using kube_loadConfig_change by blast
next
  assume a: "Annotations node KubeMachineAnnotationKey = Some data
      \<and> MigrateHost k h data = Inr (m, True)
      \<and> kube_loadConfig k c node h = (Inr h', c')"
  then show "h' = m\<lparr>Name := Name h\<rparr>" using kube_loadConfig_resaved by blast
  from a show "kube_Save k c h' = (None, c')" using kube_loadConfig_resaved by blast
next
  assume "ReadFile d (Join (Join (GetMachinesDir s) (Name h)) ''config.json'') = Inr data
      \<and> MigrateHost k h data = Inr (m, False)"
  then show "file_loadConfig k s d h = (Inr (m\<lparr>Name := Name h\<rparr>), d)"
    by (simp add: file_loadConfig_def Let_def)
next
  assume "file_loadConfig k s d h = (fr, d') \<and> d' \<noteq> d"
  then show "\<exists>data m. ReadFile d (Join (Join (GetMachinesDir s) (Name h)) ''config.json'')
                     = Inr data
           \<and> MigrateHost k h data = Inr (m, True)"
    using file_loadConfig_change by blast
next
  assume a: "ReadFile d (Join (Join (GetMachinesDir s) (Name h)) ''config.json'') = Inr data
      \<and> MigrateHost k h data = Inr (m, True)
      \<and> file_loadConfig k s d h = (Inr h', d')"
  then have rd: "ReadFile d (Join (Join (GetMachinesDir s) (Name h)) ''config.json'') = Inr data"
    and mg: "MigrateHost k h data = Inr (m, True)"
    and ld: "file_loadConfig k s d h = (Inr h', d')" by simp_all
  note x = file_loadConfig_resaved [OF rd mg ld]
  from x show "h' = m\<lparr>Name := Name h\<rparr>" by blast
  from x show "\<exists>d1. saveToFile d data (Join (Join (GetMachinesDir s) (Name h)) ''config.json.bak'')
                    = (None, d1)
                \<and> file_Save k s d1 h' = (None, d')" by blast
  from x show "files d' (Join (Join (GetMachinesDir s) (Name h)) ''config.json.bak'') = Some data"
    by blast
next
  assume a: "ReadFile d (Join (Join (GetMachinesDir s) (Name h)) ''config.json'') = Inr data
      \<and> MigrateHost k h data = Inr (m, True)
      \<and> saveToFile d data (Join (Join (GetMachinesDir s) (Name h)) ''config.json.bak'')
           = (Some e, d1)"
  then have rd: "ReadFile d (Join (Join (GetMachinesDir s) (Name h)) ''config.json'') = Inr data"
    and mg: "MigrateHost k h data = Inr (m, True)"
    and b: "saveToFile d data (Join (Join (GetMachinesDir s) (Name h)) ''config.json.bak'')
           = (Some e, d1)" by simp_all
  note x = file_loadConfig_backup_fails [OF rd mg b]
  from x show "file_loadConfig k s d h
          = (Inl (Errorf (''Error attempting to save backup after migration: '' @ error_msg e)),
             d1)" by blast
  from x show "files d1 (Join (Join (GetMachinesDir s) (Name h)) ''config.json'')
            = files d (Join (Join (GetMachinesDir s) (Name h)) ''config.json'')" by blast
qed

lemma demo_kube_loadConfig:
  "fst (kube_loadConfig demo_codec demo_cluster (items demo_cluster ! 2) (host_named ''n3''))
     = Inr (legacy_host\<lparr>Name := ''n3''\<rparr>)"
  by (simp add: kube_loadConfig_def kube_Save_def Nodes_Get_def Nodes_Update_def
        demo_cluster_def demo_codec_def host_named_def Let_def)

lemma demo_file_loadConfig:
  "fst (file_loadConfig demo_codec demo_store legacy_fs (host_named ''n3''))
     = Inr (legacy_host\<lparr>Name := ''n3''\<rparr>)"
  by (simp add: file_loadConfig_def file_Save_def demo_codec_def demo_store_def legacy_fs_def
      host_named_def legacy_host_def ReadFile_def
      GetMachinesDir_def Join_def MkdirAll_def saveToFile_def Stat_def os_IsNotExist_def
      TempFile_def Dir_def WriteFile_def Close_def Remove_def Rename_def deferred_Remove_def
      Let_def)

theorem loadConfig_resave_witness:
  "Annotations (hd (items demo_cluster)) KubeMachineAnnotationKey = Some ''host:n1:generic''
   \<and> MigrateHost demo_codec (host_named ''n1'') ''host:n1:generic'' = Inr (demo_host, False)
   \<and> kube_loadConfig demo_codec demo_cluster (hd (items demo_cluster)) (host_named ''n1'')
       = (Inr demo_host, demo_cluster)
   \<and> Annotations (items demo_cluster ! 2) KubeMachineAnnotationKey = Some ''x''
   \<and> MigrateHost demo_codec (host_named ''n3'') ''x'' = Inr (legacy_host, True)
   \<and> kube_loadConfig demo_codec demo_cluster (items demo_cluster ! 2) (host_named ''n3'')
       = (Inr (legacy_host\<lparr>Name := ''n3''\<rparr>),
          snd (kube_loadConfig demo_codec demo_cluster (items demo_cluster ! 2)
                 (host_named ''n3'')))
   \<and> kube_Save demo_codec demo_cluster (legacy_host\<lparr>Name := ''n3''\<rparr>)
       = (None, snd (kube_loadConfig demo_codec demo_cluster (items demo_cluster ! 2)
                       (host_named ''n3'')))
   \<and> ReadFile legacy_fs ''/var/km/machines/n3/config.json'' = Inr ''x''
   \<and> file_loadConfig demo_codec demo_store legacy_fs (host_named ''n3'')
       = (Inr (legacy_host\<lparr>Name := ''n3''\<rparr>),
          snd (file_loadConfig demo_codec demo_store legacy_fs (host_named ''n3'')))
   \<and> files (snd (file_loadConfig demo_codec demo_store legacy_fs (host_named ''n3'')))
        ''/var/km/machines/n3/config.json.bak'' = Some ''x''"
proof -
  let ?n1 = "hd (items demo_cluster)" and ?n3 = "items demo_cluster ! 2"
  let ?c = "snd (kube_loadConfig demo_codec demo_cluster ?n3 (host_named ''n3''))"
  let ?d = "snd (file_loadConfig demo_codec demo_store legacy_fs (host_named ''n3''))"
  have a1: "Annotations ?n1 KubeMachineAnnotationKey = Some ''host:n1:generic''"
    and a3: "Annotations ?n3 KubeMachineAnnotationKey = Some ''x''"
    by (simp_all add: demo_cluster_def)
  have m1: "MigrateHost demo_codec (host_named ''n1'') ''host:n1:generic'' = Inr (demo_host, False)"
    and m3: "MigrateHost demo_codec (host_named ''n3'') ''x'' = Inr (legacy_host, True)"
    by (simp_all add: demo_codec_def)
  have nm: "Name (host_named ''n1'') = ''n1''" "Name (host_named ''n3'') = ''n3''"
    "demo_host\<lparr>Name := ''n1''\<rparr> = demo_host"
    by (simp_all add: host_named_def demo_host_def)
  have p: "Join (Join (GetMachinesDir demo_store) ''n3'') ''config.json''
             = ''/var/km/machines/n3/config.json''"
    "Join (Join (GetMachinesDir demo_store) ''n3'') ''config.json.bak''
             = ''/var/km/machines/n3/config.json.bak''"
    by (simp_all add: GetMachinesDir_def demo_store_def Join_def)
  have rd: "ReadFile legacy_fs ''/var/km/machines/n3/config.json'' = Inr ''x''"
    by (simp add: ReadFile_def legacy_fs_def)
  have l3: "kube_loadConfig demo_codec demo_cluster ?n3 (host_named ''n3'')
              = (Inr (legacy_host\<lparr>Name := ''n3''\<rparr>), ?c)"
    using demo_kube_loadConfig by (simp add: prod_eq_iff)
  have f3: "file_loadConfig demo_codec demo_store legacy_fs (host_named ''n3'')
              = (Inr (legacy_host\<lparr>Name := ''n3''\<rparr>), ?d)"
    using demo_file_loadConfig by (simp add: prod_eq_iff)
  have A: "kube_loadConfig demo_codec demo_cluster ?n1 (host_named ''n1'')
             = (Inr demo_host, demo_cluster)"
    using a1 m1 nm
      loadConfig_resave [where node = ?n1 and data = "''host:n1:generic''" and k = demo_codec
        and h = "host_named ''n1''" and m = demo_host and c = demo_cluster]
    by simp
  have B: "kube_Save demo_codec demo_cluster (legacy_host\<lparr>Name := ''n3''\<rparr>) = (None, ?c)"
    using a3 m3 l3 nm
      loadConfig_resave [where node = ?n3 and data = "''x''" and k = demo_codec
        and h = "host_named ''n3''" and m = legacy_host and c = demo_cluster and c' = ?c
        and h' = "legacy_host\<lparr>Name := ''n3''\<rparr>"]
    by simp
  have C: "files ?d ''/var/km/machines/n3/config.json.bak'' = Some ''x''"
    using rd m3 f3 nm p
      loadConfig_resave [where data = "''x''" and k = demo_codec and s = demo_store
        and h = "host_named ''n3''" and m = legacy_host and d = legacy_fs and d' = ?d
        and h' = "legacy_host\<lparr>Name := ''n3''\<rparr>"]
    by simp
  from a1 m1 A a3 m3 l3 B rd f3 C show ?thesis by blast
qed

subsection \<open>Save, then Load\<close>

lemma kube_Save_faults:
  "kube_Save k c h = (r, c') \<Longrightarrow> fail_Get c' = fail_Get c"
  by (auto simp: kube_Save_def Nodes_Create_def Nodes_Update_def
        split: sum.splits option.splits if_splits)

text \<open>In the Kubernetes-backed store a record that was saved is loaded back unchanged,
  provided the migration routine decodes the saved bytes to the record without migrating.\<close>

lemma kube_Save_Load:
  assumes sv: "kube_Save k c r = (None, c')"
    and get: "fail_Get c (Name r) = None"
    and dec: "\<And>data. MarshalIndent k r = Inr data \<Longrightarrow>
                MigrateHost k (host_named (Name r)) data = Inr (r, False)"
  shows "kube_Load k c' (Name r) = (Inr r, c')"
proof -
  from kube_Save_ok [OF sv] obtain data where m: "MarshalIndent k r = Inr data"
    and f: "find (\<lambda>x. node_Name x = Name r) (items c')
              = Some (marked (find (\<lambda>x. node_Name x = Name r) (items c)) (Name r) data)"
    by blast
  let ?n = "marked (find (\<lambda>x. node_Name x = Name r) (items c)) (Name r) data"
  from kube_Save_faults [OF sv] get have "fail_Get c' (Name r) = None" by simp
  with f have g: "Nodes_Get c' (Name r) = Inr ?n" by (simp add: Nodes_Get_def)
  have a: "Annotations ?n KubeMachineAnnotationKey = Some data" using marked_has by blast
  have n: "Name (host_named (Name r)) = Name r" by (simp add: host_named_def)
  from g a dec [OF m] n show ?thesis
    by (simp add: kube_Load_def kube_loadConfig_def Let_def)
qed

text \<open>
  C1 (the code of the file-backed store at a concrete record). After a successful \<open>Save\<close>
  of a record with the \<open>generic\<close> driver, \<open>Load\<close> of its name returns the record
  that \<open>Load\<close> builds from constants: driver \<open>none\<close>, its own options, nothing of
  what was saved.
\<close>

theorem file_Save_Load_stub:
  "fst (file_Save demo_codec demo_store demo_fs demo_host) = None
   \<and> file_Load demo_cluster (Name demo_host) = Inr (stub_host ''n1'')
   \<and> DriverName (stub_host ''n1'') = ''none'' \<and> DriverName demo_host = ''generic''
   \<and> Driver (stub_host ''n1'') = NoneDriver ''n1'' ''https://1.2.3.4:1234''
   \<and> Driver demo_host = RawConfig ''{ip: 10.0.0.1}''
   \<and> HostOptions (stub_host ''n1'') = Some \<lparr>opt_Driver = ''none'', Memory = 42, Disk = 1234\<rparr>
   \<and> HostOptions demo_host = Some \<lparr>opt_Driver = ''generic'', Memory = 1024, Disk = 20000\<rparr>"
  using demo_file_Save
  by (simp add: file_Load_def Nodes_Get_def demo_cluster_def demo_host_def stub_host_def)

text \<open>Indeed \<open>Load\<close> of the file-backed store returns this record for every name that
  the lookup finds; it reads no file.\<close>

lemma file_Load_stub: "file_Load c n = Inr h \<Longrightarrow> h = stub_host n"
  by (auto simp: file_Load_def stub_host_def split: sum.splits)

subsection \<open>Errors of Load\<close>

text \<open>
  C5 as stated does not hold. In the Kubernetes-backed store the error of a failed
  \<open>Update\<close> during the re-save reaches the caller inside a new error; and in the
  file-backed store a lookup that reports not-found makes \<open>Load\<close> return the error of
  the lookup itself, not \<open>ErrHostDoesNotExist\<close>.
\<close>

theorem Load_errors_counterexample:
  "kube_Load demo_codec readonly_cluster ''n3''
     = (Inl (Errorf ''Error saving config after migration was performed: etcd timeout''),
        readonly_cluster)
   \<and> Nodes_Update readonly_cluster (items readonly_cluster ! 2)
       = (Some (LibError ''etcd timeout''), readonly_cluster)
   \<and> Nodes_Get demo_cluster ''n7'' = Inl (not_found ''n7'')
   \<and> file_Load demo_cluster ''n7'' = Inl (not_found ''n7'')
   \<and> not_found ''n7'' \<noteq> ErrHostDoesNotExist ''n7''"
  by (simp add: kube_Load_def kube_loadConfig_def kube_Save_def Nodes_Get_def Nodes_Update_def
        readonly_cluster_def demo_cluster_def demo_codec_def host_named_def Let_def
        file_Load_def not_found_def)

text \<open>
  C5, amended. In the Kubernetes-backed store, \<open>Load n\<close> returns
  \<open>ErrHostDoesNotExist n\<close> when the lookup reports not-found and any other error of the
  lookup unchanged; a node without the marker annotation gives \<open>os.ErrNotExist\<close>; an
  error of the migration or of the re-save is returned inside a new error that carries its
  message. In the file-backed store an error of the lookup other than not-found is returned
  unchanged.
\<close>

theorem Load_errors:
  "(Nodes_Get c n = Inl e \<and> IsNotFound e \<longrightarrow>
      kube_Load k c n = (Inl (ErrHostDoesNotExist n), c))
   \<and> (Nodes_Get c n = Inl e \<and> \<not> IsNotFound e \<longrightarrow>
      kube_Load k c n = (Inl e, c) \<and> file_Load c n = Inl e)
   \<and> (Nodes_Get c n = Inr node \<and> Annotations node KubeMachineAnnotationKey = None \<longrightarrow>
      kube_Load k c n = (Inl ErrNotExist, c))
   \<and> (Nodes_Get c n = Inr node \<and> Annotations node KubeMachineAnnotationKey = Some data
       \<and> MigrateHost k (host_named n) data = Inl e \<longrightarrow>
      kube_Load k c n = (Inl (Errorf (''Error getting migrated host: '' @ error_msg e)), c))
   \<and> (Nodes_Get c n = Inr node \<and> Annotations node KubeMachineAnnotationKey = Some data
       \<and> MigrateHost k (host_named n) data = Inr (m, True)
       \<and> kube_Save k c (m\<lparr>Name := n\<rparr>) = (Some e, c') \<longrightarrow>
      kube_Load k c n
        = (Inl (Errorf (''Error saving config after migration was performed: '' @ error_msg e)),
           c'))"
  by (simp add: kube_Load_def kube_loadConfig_def file_Load_def host_named_def Let_def)

theorem Load_errors_witness:
  "Nodes_Get demo_cluster ''n7'' = Inl (not_found ''n7'') \<and> IsNotFound (not_found ''n7'')
   \<and> kube_Load demo_codec demo_cluster ''n7'' = (Inl (ErrHostDoesNotExist ''n7''), demo_cluster)
   \<and> Nodes_Get demo_cluster ''n9'' = Inl (LibError ''connection refused'')
   \<and> \<not> IsNotFound (LibError ''connection refused'')
   \<and> kube_Load demo_codec demo_cluster ''n9''
       = (Inl (LibError ''connection refused''), demo_cluster)
   \<and> file_Load demo_cluster ''n9'' = Inl (LibError ''connection refused'')
   \<and> Nodes_Get demo_cluster ''n2'' = Inr (items demo_cluster ! 1)
   \<and> Annotations (items demo_cluster ! 1) KubeMachineAnnotationKey = None
   \<and> kube_Load demo_codec demo_cluster ''n2'' = (Inl ErrNotExist, demo_cluster)"
proof -
  have b: "Nodes_Get demo_cluster ''n7'' = Inl (not_found ''n7'')"
    by (simp add: Nodes_Get_def demo_cluster_def)
  have b': "IsNotFound (not_found ''n7'')" by (simp add: not_found_def)
  have d: "Nodes_Get demo_cluster ''n9'' = Inl (LibError ''connection refused'')"
    by (simp add: Nodes_Get_def demo_cluster_def)
  have d': "\<not> IsNotFound (LibError ''connection refused'')" by simp
  have g: "Nodes_Get demo_cluster ''n2'' = Inr (items demo_cluster ! 1)"
    by (simp add: Nodes_Get_def demo_cluster_def)
  have g': "Annotations (items demo_cluster ! 1) KubeMachineAnnotationKey = None"
    by (simp add: demo_cluster_def)
  have A: "kube_Load demo_codec demo_cluster ''n7''
             = (Inl (ErrHostDoesNotExist ''n7''), demo_cluster)"
    using b b' Load_errors [where c = demo_cluster and n = "''n7''" and e = "not_found ''n7''"
                              and k = demo_codec]
    by blast
  have B: "kube_Load demo_codec demo_cluster ''n9''
             = (Inl (LibError ''connection refused''), demo_cluster)
           \<and> file_Load demo_cluster ''n9'' = Inl (LibError ''connection refused'')"
    using d d' Load_errors [where c = demo_cluster and n = "''n9''"
                              and e = "LibError ''connection refused''" and k = demo_codec]
    by blast
  have C: "kube_Load demo_codec demo_cluster ''n2'' = (Inl ErrNotExist, demo_cluster)"
    using g g' Load_errors [where c = demo_cluster and n = "''n2''"
                              and node = "items demo_cluster ! 1" and k = demo_codec]
    by blast
  from b b' d d' g g' A B C show ?thesis by blast
qed

end
